theory Spec2Isabelle
  imports Main "HOL-Library.Sublist"
begin

section \<open>The platform the script runs on\<close>

text \<open>
  \<^verbatim>\<open>dedup_index.py\<close> touches three things outside itself: the file system (two files
  are read, one is written), standard output, and the exceptions that the interpreter and
  the XML library raise. They are the fields of \<open>world\<close> and the constructors of
  \<open>error\<close>. The field \<open>calls\<close> records, in order, every external call the script makes;
  no operation reads it.
\<close>

type_synonym path = string

datatype error =
    OSError path
  | XMLSyntaxError string
  | XSLTParseError string
  | XSLTApplyError string
  | SerialisationError string

datatype event =
    Parse path
  | Compile
  | Execute
  | OpenW path
  | PrintTo path
  | Notice

record world =
  files :: "path \<rightharpoonup> string"
  writable :: "path \<Rightarrow> bool"
  stdout :: string
  calls :: "event list"

text \<open>
  A Python statement maps a world to an outcome and the world it leaves behind: \<open>Inl e\<close>
  is the exception \<open>e\<close> in flight, \<open>Inr v\<close> the value \<open>v\<close>. Statements in sequence are
  chained by \<open>and_then\<close>; the script contains no \<^verbatim>\<open>try\<close>, so an exception skips
  every later statement of the block.
\<close>

type_synonym 'a io = "world \<Rightarrow> (error + 'a) \<times> world"

definition and_then :: "'a io \<Rightarrow> ('a \<Rightarrow> 'b io) \<Rightarrow> 'b io" where
  "and_then m f w = (case m w of (Inl e, w') \<Rightarrow> (Inl e, w') | (Inr a, w') \<Rightarrow> f a w')"

definition return_none :: "unit io" where
  "return_none w = (Inr (), w)"

definition logged :: "event \<Rightarrow> world \<Rightarrow> world" where
  "logged ev w = w\<lparr>calls := calls w @ [ev]\<rparr>"

definition newline :: char where
  "newline = CHR 0x0A"

section \<open>The XML library\<close>

text \<open>
  \<^verbatim>\<open>lxml.etree\<close> is not part of the repository, so it is a parameter: a parser of
  document text, the stylesheet compiler \<^verbatim>\<open>ET.XSLT\<close>, the application of a compiled
  transform to a document, and \<^verbatim>\<open>str\<close> on a result tree. Each of them may raise.
  They are functions of their arguments alone; what a stylesheet could read from
  elsewhere (an imported file, the clock) is outside this model.
\<close>

record ('d, 't, 'r) etree =
  fromstring :: "string \<Rightarrow> error + 'd"
  XSLT :: "'d \<Rightarrow> error + 't"
  apply_to :: "'t \<Rightarrow> 'd \<Rightarrow> error + 'r"
  str_of :: "'r \<Rightarrow> error + string"

definition ET_parse :: "('d, 't, 'r) etree \<Rightarrow> path \<Rightarrow> 'd io" where
  "ET_parse L p w =
     (case files w p of
        None \<Rightarrow> (Inl (OSError p), logged (Parse p) w)
      | Some s \<Rightarrow> (fromstring L s, logged (Parse p) w))"

definition ET_XSLT :: "('d, 't, 'r) etree \<Rightarrow> 'd \<Rightarrow> 't io" where
  "ET_XSLT L xslt w = (XSLT L xslt, logged Compile w)"

definition call_transform :: "('d, 't, 'r) etree \<Rightarrow> 't \<Rightarrow> 'd \<Rightarrow> 'r io" where
  "call_transform L transform doc w = (apply_to L transform doc, logged Execute w)"

text \<open>
  \<^verbatim>\<open>open(p, 'w')\<close> fails where the path cannot be written and otherwise truncates
  the file; the handle it returns is modelled by the path. \<^verbatim>\<open>print(x, file=f)\<close>
  computes \<^verbatim>\<open>str(x)\<close> and appends it, followed by one newline, to the file behind
  the handle. Leaving the \<^verbatim>\<open>with\<close> block closes the handle, which changes nothing
  here since writes are not buffered in the model.
\<close>

definition open_w :: "path \<Rightarrow> path io" where
  "open_w p w =
     (if writable w p
      then (Inr p, (logged (OpenW p) w)\<lparr>files := (files w)(p \<mapsto> [])\<rparr>)
      else (Inl (OSError p), logged (OpenW p) w))"

definition file_write :: "path \<Rightarrow> string \<Rightarrow> world \<Rightarrow> world" where
  "file_write f s w =
     w\<lparr>files := (files w)(f \<mapsto> (case files w f of None \<Rightarrow> [] | Some c \<Rightarrow> c) @ s)\<rparr>"

definition print_file :: "('d, 't, 'r) etree \<Rightarrow> 'r \<Rightarrow> path \<Rightarrow> unit io" where
  "print_file L x f w =
     (case str_of L x of
        Inl e \<Rightarrow> (Inl e, logged (PrintTo f) w)
      | Inr s \<Rightarrow> (Inr (), file_write f (s @ [newline]) (logged (PrintTo f) w)))"

definition print_stdout :: "string \<Rightarrow> unit io" where
  "print_stdout s w = (Inr (), (logged Notice w)\<lparr>stdout := stdout w @ s @ [newline]\<rparr>)"

section \<open>The script\<close>

text \<open>
  \<^verbatim>\<open>
  def xsl_transform(inDoc, xslFile, outDoc):
      doc = ET.parse(inDoc)
      xslt = ET.parse(xslFile)
      transform = ET.XSLT(xslt)
      transformed_doc = transform(doc)
      with open(outDoc, 'w') as f:
          print(transformed_doc, file=f)
      return
  \<close>
\<close>

definition xsl_transform :: "('d, 't, 'r) etree \<Rightarrow> path \<Rightarrow> path \<Rightarrow> path \<Rightarrow> unit io" where
  "xsl_transform L inDoc xslFile outDoc =
     and_then (ET_parse L inDoc) (\<lambda>doc.
     and_then (ET_parse L xslFile) (\<lambda>xslt.
     and_then (ET_XSLT L xslt) (\<lambda>transform.
     and_then (call_transform L transform doc) (\<lambda>transformed_doc.
     and_then (open_w outDoc) (\<lambda>f.
     and_then (print_file L transformed_doc f) (\<lambda>_.
     return_none))))))"

text \<open>
  The two names between \<^verbatim>\<open>@\<close> signs are replaced by the build system before the
  script runs; their values are the fields of \<open>build_config\<close>.
  \<^verbatim>\<open>
  def doxy_deduplicate_index():
      xsl_transform(
              "@DOXYGEN_OUTPUT_DIRECTORY@/xml/index.xml",
              "@PROJECT_DOC_DIR@/thirdparty/doxygen/dedup_index.xsl",
              "@DOXYGEN_OUTPUT_DIRECTORY@/xml/index.xml")
      print('Removed duplicated <compound> elements in index.xml')

  doxy_deduplicate_index()
  \<close>
\<close>

record build_config =
  DOXYGEN_OUTPUT_DIRECTORY :: string
  PROJECT_DOC_DIR :: string

definition doxy_deduplicate_index :: "('d, 't, 'r) etree \<Rightarrow> build_config \<Rightarrow> unit io" where
  "doxy_deduplicate_index L cfg =
     and_then
       (xsl_transform L
          (DOXYGEN_OUTPUT_DIRECTORY cfg @ ''/xml/index.xml'')
          (PROJECT_DOC_DIR cfg @ ''/thirdparty/doxygen/dedup_index.xsl'')
          (DOXYGEN_OUTPUT_DIRECTORY cfg @ ''/xml/index.xml''))
       (\<lambda>_. print_stdout ''Removed duplicated <compound> elements in index.xml'')"

definition dedup_index_py :: "('d, 't, 'r) etree \<Rightarrow> build_config \<Rightarrow> unit io" where
  "dedup_index_py L cfg = doxy_deduplicate_index L cfg"

section \<open>Documents and the de-duplicating stylesheet\<close>

text \<open>
  An XML document is the tree of its elements: a tag, the attributes in document order,
  the child elements.
\<close>

datatype xml = Element (tag: string) (attrib: "(string \<times> string) list") (children: "xml list")

text \<open>
  Modelled from the spec: the stylesheet \<^verbatim>\<open>dedup_index.xsl\<close> that the driver names is a
  file of the repository that is not among the sources at hand. The specification gives
  its contract: of the \<^verbatim>\<open><compound>\<close> children of the index root, keep the first
  one per unique \<^verbatim>\<open>refid\<close> and leave the rest of the document as it is.

  \<open>keep_first m k seen es\<close> walks the elements \<open>es\<close> in document order and drops an
  element with tag \<open>m\<close> whose attribute \<open>k\<close> has a value met before; \<open>seen\<close> holds the
  values met so far. Elements with another tag, or without the attribute, are kept.
\<close>

definition key_of :: "string \<Rightarrow> string \<Rightarrow> xml \<Rightarrow> string option" where
  "key_of m k e = (if tag e = m then map_of (attrib e) k else None)"

definition keys :: "string \<Rightarrow> string \<Rightarrow> xml list \<Rightarrow> string list" where
  "keys m k es = List.map_filter (key_of m k) es"

fun keep_first :: "string \<Rightarrow> string \<Rightarrow> string list \<Rightarrow> xml list \<Rightarrow> xml list" where
  "keep_first m k seen [] = []"
| "keep_first m k seen (e # es) =
     (case key_of m k e of
        None \<Rightarrow> e # keep_first m k seen es
      | Some v \<Rightarrow>
          if v \<in> set seen then keep_first m k seen es
          else e # keep_first m k (v # seen) es)"

definition dedup_index_xsl :: "xml \<Rightarrow> xml" where
  "dedup_index_xsl d =
     Element (tag d) (attrib d) (keep_first ''compound'' ''refid'' [] (children d))"

definition refids :: "xml \<Rightarrow> string list" where
  "refids d = keys ''compound'' ''refid'' (children d)"

section \<open>A small executable XML library\<close>

text \<open>
  To run the script on concrete files, \<open>mini_etree\<close> implements the library interface for
  a fragment of XML: elements with double-quoted attributes, nested or self-closing,
  blanks and newlines between tags, no text content. Its stylesheets are documents of the
  form \<^verbatim>\<open><stylesheet><keep-first match="m" key="k"/></stylesheet>\<close>, compiled to the
  transform that keeps, among the children of the root, the first element \<open>m\<close> per value
  of attribute \<open>k\<close>.
\<close>

definition dquote :: char where
  "dquote = CHR 0x22"

definition attrs_text :: "(string \<times> string) list \<Rightarrow> string" where
  "attrs_text as = concat (map (\<lambda>(k, v). '' '' @ k @ ''='' @ [dquote] @ v @ [dquote]) as)"

fun xml_text :: "xml \<Rightarrow> string" where
  "xml_text (Element t as cs) =
     (if cs = [] then ''<'' @ t @ attrs_text as @ ''/>''
      else ''<'' @ t @ attrs_text as @ ''>'' @ concat (map xml_text cs) @ ''</'' @ t @ ''>'')"

datatype token =
    Open string "(string \<times> string) list"
  | SelfClose string "(string \<times> string) list"
  | Close string

fun raw_tags :: "string \<Rightarrow> string option \<Rightarrow> string list option" where
  "raw_tags [] None = Some []"
| "raw_tags [] (Some acc) = None"
| "raw_tags (c # cs) None =
     (if c = CHR ''<'' then raw_tags cs (Some [])
      else if c = CHR '' '' \<or> c = newline then raw_tags cs None
      else None)"
| "raw_tags (c # cs) (Some acc) =
     (if c = CHR ''>'' then map_option ((#) (rev acc)) (raw_tags cs None)
      else raw_tags cs (Some (c # acc)))"

fun split_words :: "string \<Rightarrow> string \<Rightarrow> string list" where
  "split_words [] acc = [rev acc]"
| "split_words (c # cs) acc =
     (if c = CHR '' '' then rev acc # split_words cs [] else split_words cs (c # acc))"

definition parse_attr :: "string \<Rightarrow> (string \<times> string) option" where
  "parse_attr w =
     (let k = takeWhile (\<lambda>c. c \<noteq> CHR ''='') w; r = dropWhile (\<lambda>c. c \<noteq> CHR ''='') w
      in case r of
           e # q # v \<Rightarrow>
             if q = dquote \<and> v \<noteq> [] \<and> last v = dquote \<and> k \<noteq> [] \<and> dquote \<notin> set (butlast v)
             then Some (k, butlast v) else None
         | _ \<Rightarrow> None)"

fun all_some :: "'a option list \<Rightarrow> 'a list option" where
  "all_some [] = Some []"
| "all_some (None # xs) = None"
| "all_some (Some x # xs) = map_option ((#) x) (all_some xs)"

definition parse_head :: "string \<Rightarrow> (string \<times> (string \<times> string) list) option" where
  "parse_head s =
     (case split_words s [] of
        [] \<Rightarrow> None
      | n # ws \<Rightarrow>
          if n = [] then None
          else map_option (Pair n) (all_some (map parse_attr ws)))"

definition parse_tag :: "string \<Rightarrow> token option" where
  "parse_tag s =
     (case s of
        [] \<Rightarrow> None
      | c # r \<Rightarrow>
          if c = CHR ''/'' then (if r = [] \<or> CHR '' '' \<in> set r then None else Some (Close r))
          else if last s = CHR ''/''
          then map_option (\<lambda>(n, as). SelfClose n as) (parse_head (butlast s))
          else map_option (\<lambda>(n, as). Open n as) (parse_head s))"

fun build :: "token list \<Rightarrow> (string \<times> (string \<times> string) list \<times> xml list) list \<Rightarrow> xml option" where
  "build [] st = None"
| "build (Open n as # ts) st = build ts ((n, as, []) # st)"
| "build (SelfClose n as # ts) [] = (if ts = [] then Some (Element n as []) else None)"
| "build (SelfClose n as # ts) ((m, bs, cs) # st) =
     build ts ((m, bs, Element n as [] # cs) # st)"
| "build (Close n # ts) [] = None"
| "build (Close n # ts) [(m, bs, cs)] =
     (if n = m \<and> ts = [] then Some (Element m bs (rev cs)) else None)"
| "build (Close n # ts) ((m, bs, cs) # (m', bs', cs') # st) =
     (if n = m then build ts ((m', bs', Element m bs (rev cs) # cs') # st) else None)"

definition xml_parse :: "string \<Rightarrow> error + xml" where
  "xml_parse s =
     (case raw_tags s None of
        None \<Rightarrow> Inl (XMLSyntaxError s)
      | Some rs \<Rightarrow>
          (case all_some (map parse_tag rs) of
             None \<Rightarrow> Inl (XMLSyntaxError s)
           | Some ts \<Rightarrow>
               (case build ts [] of
                  None \<Rightarrow> Inl (XMLSyntaxError s)
                | Some e \<Rightarrow> Inr e)))"

datatype transform = KeepFirst string string

definition mini_XSLT :: "xml \<Rightarrow> error + transform" where
  "mini_XSLT s =
     (case children s of
        [r] \<Rightarrow>
          (case (map_of (attrib r) ''match'', map_of (attrib r) ''key'') of
             (Some m, Some k) \<Rightarrow>
               if tag s = ''stylesheet'' \<and> tag r = ''keep-first'' then Inr (KeepFirst m k)
               else Inl (XSLTParseError (tag s))
           | _ \<Rightarrow> Inl (XSLTParseError (tag s)))
      | _ \<Rightarrow> Inl (XSLTParseError (tag s)))"

fun mini_apply :: "transform \<Rightarrow> xml \<Rightarrow> error + xml" where
  "mini_apply (KeepFirst m k) d = Inr (Element (tag d) (attrib d) (keep_first m k [] (children d)))"

definition mini_etree :: "(xml, transform, xml) etree" where
  "mini_etree =
     \<lparr>fromstring = xml_parse, XSLT = mini_XSLT, apply_to = mini_apply,
      str_of = (\<lambda>r. Inr (xml_text r))\<rparr>"

subsection \<open>Concrete files\<close>

definition index_AAB :: string where
  "index_AAB =
     ''<index><compound refid=\"A\"/><compound refid=\"A\"/><compound refid=\"B\"/></index>''"

definition index_AB :: string where
  "index_AB = ''<index><compound refid=\"A\"/><compound refid=\"B\"/></index>''"

definition keep_first_refid :: string where
  "keep_first_refid = ''<stylesheet><keep-first match=\"compound\" key=\"refid\"/></stylesheet>''"

definition compound :: "string \<Rightarrow> xml" where
  "compound r = Element ''compound'' [(''refid'', r)] []"

definition disk :: "(path \<times> string) list \<Rightarrow> world" where
  "disk fs = \<lparr>files = map_of fs, writable = (\<lambda>p. True), stdout = [], calls = []\<rparr>"

definition demo_cfg :: build_config where
  "demo_cfg = \<lparr>DOXYGEN_OUTPUT_DIRECTORY = ''/b'', PROJECT_DOC_DIR = ''/d''\<rparr>"

definition demo_world :: world where
  "demo_world =
     disk [(''/b/xml/index.xml'', index_AAB),
           (''/d/thirdparty/doxygen/dedup_index.xsl'', keep_first_refid)]"

definition doc_AAB :: xml where
  "doc_AAB = Element ''index'' [] [compound ''A'', compound ''A'', compound ''B'']"

definition doc_AB :: xml where
  "doc_AB = Element ''index'' [] [compound ''A'', compound ''B'']"

definition sheet_doc :: xml where
  "sheet_doc =
     Element ''stylesheet'' []
       [Element ''keep-first'' [(''match'', ''compound''), (''key'', ''refid'')] []]"

definition small_world :: world where
  "small_world = disk [(''in.xml'', index_AAB), (''dedup.xsl'', keep_first_refid)]"

definition used_world :: world where
  "used_world =
     \<lparr>files = map_of [(''in.xml'', index_AAB), (''dedup.xsl'', keep_first_refid),
                      (''out.xml'', ''stale''), (''notes.txt'', ''n'')],
      writable = (\<lambda>p. p = ''out.xml''), stdout = ''earlier output'', calls = [Notice]\<rparr>"

definition bad_input_world :: world where
  "bad_input_world =
     disk [(''in.xml'', ''<index><compound''), (''dedup.xsl'', keep_first_refid),
           (''out.xml'', ''old'')]"

definition bad_sheet_world :: world where
  "bad_sheet_world =
     disk [(''in.xml'', index_AAB), (''dedup.xsl'', ''<stylesheet>''), (''out.xml'', ''old'')]"

definition bad_demo_world :: world where
  "bad_demo_world =
     disk [(''/b/xml/index.xml'', ''<index>''),
           (''/d/thirdparty/doxygen/dedup_index.xsl'', keep_first_refid)]"


section \<open>What one call of \<open>xsl_transform\<close> does\<close>

text \<open>
  The six statements of \<open>xsl_transform\<close>, unfolded: the first one that raises decides
  the outcome, and the world at that point is the one the caller sees.
\<close>

lemma xsl_transform_unfold:
  "xsl_transform L i x out w =
     (case files w i of
        None \<Rightarrow> (Inl (OSError i), w\<lparr>calls := calls w @ [Parse i]\<rparr>)
      | Some a \<Rightarrow>
     (case fromstring L a of
        Inl e \<Rightarrow> (Inl e, w\<lparr>calls := calls w @ [Parse i]\<rparr>)
      | Inr d \<Rightarrow>
     (case files w x of
        None \<Rightarrow> (Inl (OSError x), w\<lparr>calls := calls w @ [Parse i, Parse x]\<rparr>)
      | Some b \<Rightarrow>
     (case fromstring L b of
        Inl e \<Rightarrow> (Inl e, w\<lparr>calls := calls w @ [Parse i, Parse x]\<rparr>)
      | Inr s \<Rightarrow>
     (case XSLT L s of
        Inl e \<Rightarrow> (Inl e, w\<lparr>calls := calls w @ [Parse i, Parse x, Compile]\<rparr>)
      | Inr t \<Rightarrow>
     (case apply_to L t d of
        Inl e \<Rightarrow> (Inl e, w\<lparr>calls := calls w @ [Parse i, Parse x, Compile, Execute]\<rparr>)
      | Inr r \<Rightarrow>
     (if \<not> writable w out
      then (Inl (OSError out),
            w\<lparr>calls := calls w @ [Parse i, Parse x, Compile, Execute, OpenW out]\<rparr>)
      else
     (case str_of L r of
        Inl e \<Rightarrow>
          (Inl e,
           w\<lparr>files := (files w)(out \<mapsto> []),
             calls := calls w @ [Parse i, Parse x, Compile, Execute, OpenW out, PrintTo out]\<rparr>)
      | Inr text \<Rightarrow>
          (Inr (),
           w\<lparr>files := (files w)(out \<mapsto> text @ [newline]),
             calls := calls w @ [Parse i, Parse x, Compile, Execute, OpenW out, PrintTo out]\<rparr>)))))))))"
  by (simp add: xsl_transform_def and_then_def ET_parse_def ET_XSLT_def call_transform_def
      open_w_def print_file_def file_write_def return_none_def logged_def
      split: option.splits sum.splits)

lemma xsl_transform_returns:
  assumes "files w i = Some a" "fromstring L a = Inr d"
    and "files w x = Some b" "fromstring L b = Inr s"
    and "XSLT L s = Inr t" "apply_to L t d = Inr r" "str_of L r = Inr text"
    and "writable w out"
  shows "xsl_transform L i x out w =
           (Inr (),
            w\<lparr>files := (files w)(out \<mapsto> text @ [newline]),
              calls := calls w @ [Parse i, Parse x, Compile, Execute, OpenW out, PrintTo out]\<rparr>)"
  using assms by (simp add: xsl_transform_unfold)

lemma xsl_transform_InrD:
  assumes "fst (xsl_transform L i x out w) = Inr u"
  shows "\<exists>a d b s t r text.
           files w i = Some a \<and> fromstring L a = Inr d \<and>
           files w x = Some b \<and> fromstring L b = Inr s \<and>
           XSLT L s = Inr t \<and> apply_to L t d = Inr r \<and> str_of L r = Inr text \<and>
           writable w out \<and>
           snd (xsl_transform L i x out w) =
             w\<lparr>files := (files w)(out \<mapsto> text @ [newline]),
               calls := calls w @ [Parse i, Parse x, Compile, Execute, OpenW out, PrintTo out]\<rparr>"
  using assms unfolding xsl_transform_unfold
  by (auto split: option.splits sum.splits if_splits)

subsection \<open>First occurrence per key\<close>

lemma keys_Nil: "keys m k [] = []"
  by (simp add: keys_def)

lemma keys_Cons:
  "keys m k (e # es) = (case key_of m k e of None \<Rightarrow> keys m k es | Some v \<Rightarrow> v # keys m k es)"
  by (simp add: keys_def split: option.splits)

lemma set_keys_keep_first:
  "set (keys m k (keep_first m k seen es)) = set (keys m k es) - set seen"
  by (induction es arbitrary: seen) (auto simp: keys_Nil keys_Cons split: option.splits)

lemma distinct_keys_keep_first: "distinct (keys m k (keep_first m k seen es))"
  by (induction es arbitrary: seen)
     (auto simp: keys_Nil keys_Cons set_keys_keep_first split: option.splits)

lemma keep_first_idem:
  "keep_first m k seen (keep_first m k seen es) = keep_first m k seen es"
  by (induction es arbitrary: seen) (auto split: option.splits)

lemma count_list_distinct: "distinct xs \<Longrightarrow> x \<in> set xs \<Longrightarrow> count_list xs x = 1"
  by (induction xs) (auto simp: count_notin)

lemma refids_dedup_set: "set (refids (dedup_index_xsl d)) = set (refids d)"
  by (simp add: refids_def dedup_index_xsl_def set_keys_keep_first)

lemma refids_dedup_distinct: "distinct (refids (dedup_index_xsl d))"
  by (simp add: refids_def dedup_index_xsl_def distinct_keys_keep_first)

lemma dedup_index_xsl_idem: "dedup_index_xsl (dedup_index_xsl d) = dedup_index_xsl d"
  by (simp add: dedup_index_xsl_def keep_first_idem)

subsection \<open>The driver\<close>

lemma doxy_deduplicate_index_unfold:
  "doxy_deduplicate_index L cfg w =
     (case xsl_transform L
             (DOXYGEN_OUTPUT_DIRECTORY cfg @ ''/xml/index.xml'')
             (PROJECT_DOC_DIR cfg @ ''/thirdparty/doxygen/dedup_index.xsl'')
             (DOXYGEN_OUTPUT_DIRECTORY cfg @ ''/xml/index.xml'') w of
        (Inl e, w') \<Rightarrow> (Inl e, w')
      | (Inr u, w') \<Rightarrow>
          (Inr (),
           w'\<lparr>stdout := stdout w' @ ''Removed duplicated <compound> elements in index.xml'' @ [newline],
              calls := calls w' @ [Notice]\<rparr>))"
  by (simp add: doxy_deduplicate_index_def and_then_def print_stdout_def logged_def
      split: prod.splits sum.splits)

section \<open>The claims\<close>

subsection \<open>C1: what a returning call leaves at the output path\<close>




subsection \<open>C2: a document that does not parse\<close>

text \<open>
  Claim C2: if the file at the input path or the file at the stylesheet path holds text
  that does not parse, the call raises, no file has changed (so the one at the output
  path is untouched), and the output path was neither opened nor printed to. The
  exception is the parse error of the input where the input is malformed, and that of
  the stylesheet where the input parses and the stylesheet is malformed.
\<close>

theorem malformed_input_no_write:
  assumes "(\<exists>a e. files w inDoc = Some a \<and> fromstring L a = Inl e) \<or>
           (\<exists>b e. files w xslFile = Some b \<and> fromstring L b = Inl e)"
  shows "\<exists>e evs. fst (xsl_transform L inDoc xslFile outDoc w) = Inl e \<and>
           files (snd (xsl_transform L inDoc xslFile outDoc w)) = files w \<and>
           calls (snd (xsl_transform L inDoc xslFile outDoc w)) = calls w @ evs \<and>
           OpenW outDoc \<notin> set evs \<and> PrintTo outDoc \<notin> set evs \<and>
           (\<forall>a e'. files w inDoc = Some a \<and> fromstring L a = Inl e' \<longrightarrow> e = e') \<and>
           (\<forall>a doc b e'. files w inDoc = Some a \<and> fromstring L a = Inr doc \<and>
               files w xslFile = Some b \<and> fromstring L b = Inl e' \<longrightarrow> e = e')"
  using assms unfolding xsl_transform_unfold
  by (auto split: sum.splits option.splits)

theorem malformed_input_no_write_witness:
  "fst (xsl_transform mini_etree ''in.xml'' ''dedup.xsl'' ''out.xml'' bad_input_world)
     = Inl (XMLSyntaxError ''<index><compound'') \<and>
   files (snd (xsl_transform mini_etree ''in.xml'' ''dedup.xsl'' ''out.xml'' bad_input_world)) ''out.xml''
     = Some ''old'' \<and>
   fst (xsl_transform mini_etree ''in.xml'' ''dedup.xsl'' ''out.xml'' bad_sheet_world)
     = Inl (XMLSyntaxError ''<stylesheet>'') \<and>
   files (snd (xsl_transform mini_etree ''in.xml'' ''dedup.xsl'' ''out.xml'' bad_sheet_world)) ''out.xml''
     = Some ''old''"
proof -
  let ?ri = "xsl_transform mini_etree ''in.xml'' ''dedup.xsl'' ''out.xml'' bad_input_world"
  let ?rs = "xsl_transform mini_etree ''in.xml'' ''dedup.xsl'' ''out.xml'' bad_sheet_world"
  have i1: "files bad_input_world ''in.xml'' = Some ''<index><compound''"
    and i3: "fromstring mini_etree ''<index><compound'' = Inl (XMLSyntaxError ''<index><compound'')"
    and i5: "files bad_input_world ''out.xml'' = Some ''old''"
    by code_simp+
  have s1: "files bad_sheet_world ''in.xml'' = Some index_AAB"
    and s2: "files bad_sheet_world ''dedup.xsl'' = Some ''<stylesheet>''"
    and s3: "fromstring mini_etree ''<stylesheet>'' = Inl (XMLSyntaxError ''<stylesheet>'')"
    and s4: "fromstring mini_etree index_AAB = Inr doc_AAB"
    and s5: "files bad_sheet_world ''out.xml'' = Some ''old''"
    by code_simp+
  from i1 i3 have "(\<exists>a e. files bad_input_world ''in.xml'' = Some a \<and> fromstring mini_etree a = Inl e) \<or>
      (\<exists>b e. files bad_input_world ''dedup.xsl'' = Some b \<and> fromstring mini_etree b = Inl e)"
    by blast
  from malformed_input_no_write [OF this, of "''out.xml''"] obtain e where
    a: "fst ?ri = Inl e" "files (snd ?ri) = files bad_input_world"
       "\<forall>a e'. files bad_input_world ''in.xml'' = Some a \<and> fromstring mini_etree a = Inl e' \<longrightarrow> e = e'"
    by blast
  from a(3) i1 i3 have "e = XMLSyntaxError ''<index><compound''"
    by blast
  with a i5 have ra: "fst ?ri = Inl (XMLSyntaxError ''<index><compound'')"
    "files (snd ?ri) ''out.xml'' = Some ''old''"
    by simp_all
  from s2 s3 have "(\<exists>a e. files bad_sheet_world ''in.xml'' = Some a \<and> fromstring mini_etree a = Inl e) \<or>
      (\<exists>b e. files bad_sheet_world ''dedup.xsl'' = Some b \<and> fromstring mini_etree b = Inl e)"
    by blast
  from malformed_input_no_write [OF this, of "''out.xml''"] obtain e where
    b: "fst ?rs = Inl e" "files (snd ?rs) = files bad_sheet_world"
       "\<forall>a doc b e'. files bad_sheet_world ''in.xml'' = Some a \<and> fromstring mini_etree a = Inr doc \<and>
               files bad_sheet_world ''dedup.xsl'' = Some b \<and> fromstring mini_etree b = Inl e' \<longrightarrow> e = e'"
    by blast
  from b(3) s1 s2 s3 s4 have "e = XMLSyntaxError ''<stylesheet>''"
    by blast
  with b s5 have rb: "fst ?rs = Inl (XMLSyntaxError ''<stylesheet>'')"
    "files (snd ?rs) ''out.xml'' = Some ''old''"
    by simp_all
  from ra rb show ?thesis by simp
qed

subsection \<open>C4: exceptions reach the caller as raised\<close>

text \<open>
  Claim C4: \<open>xsl_transform\<close> raises \<open>e\<close> exactly when one of its six statements, reached
  after the earlier ones have succeeded, raises \<open>e\<close>: no exception is swallowed and none
  is replaced by another. When the transform raises inside the driver, the driver ends
  with the same exception in the world the transform left, so nothing runs after it;
  the script is the driver call.
\<close>

theorem errors_propagate:
  "(fst (xsl_transform L inDoc xslFile outDoc w) = Inl e \<longleftrightarrow>
      fst (ET_parse L inDoc w) = Inl e \<or>
      (\<exists>doc. fst (ET_parse L inDoc w) = Inr doc \<and>
        (fst (ET_parse L xslFile w) = Inl e \<or>
        (\<exists>xslt. fst (ET_parse L xslFile w) = Inr xslt \<and>
          (fst (ET_XSLT L xslt w) = Inl e \<or>
          (\<exists>transform. fst (ET_XSLT L xslt w) = Inr transform \<and>
            (fst (call_transform L transform doc w) = Inl e \<or>
            (\<exists>transformed_doc. fst (call_transform L transform doc w) = Inr transformed_doc \<and>
              (fst (open_w outDoc w) = Inl e \<or>
              (\<exists>f. fst (open_w outDoc w) = Inr f \<and>
                 fst (print_file L transformed_doc f w) = Inl e)))))))))) \<and>
   (fst (xsl_transform L
           (DOXYGEN_OUTPUT_DIRECTORY cfg @ ''/xml/index.xml'')
           (PROJECT_DOC_DIR cfg @ ''/thirdparty/doxygen/dedup_index.xsl'')
           (DOXYGEN_OUTPUT_DIRECTORY cfg @ ''/xml/index.xml'') w) = Inl e \<longrightarrow>
    doxy_deduplicate_index L cfg w =
      (Inl e, snd (xsl_transform L
           (DOXYGEN_OUTPUT_DIRECTORY cfg @ ''/xml/index.xml'')
           (PROJECT_DOC_DIR cfg @ ''/thirdparty/doxygen/dedup_index.xsl'')
           (DOXYGEN_OUTPUT_DIRECTORY cfg @ ''/xml/index.xml'') w)) \<and>
    dedup_index_py L cfg w = doxy_deduplicate_index L cfg w)"
proof (intro conjI impI)
  show "fst (xsl_transform L inDoc xslFile outDoc w) = Inl e \<longleftrightarrow>
      fst (ET_parse L inDoc w) = Inl e \<or>
      (\<exists>doc. fst (ET_parse L inDoc w) = Inr doc \<and>
        (fst (ET_parse L xslFile w) = Inl e \<or>
        (\<exists>xslt. fst (ET_parse L xslFile w) = Inr xslt \<and>
          (fst (ET_XSLT L xslt w) = Inl e \<or>
          (\<exists>transform. fst (ET_XSLT L xslt w) = Inr transform \<and>
            (fst (call_transform L transform doc w) = Inl e \<or>
            (\<exists>transformed_doc. fst (call_transform L transform doc w) = Inr transformed_doc \<and>
              (fst (open_w outDoc w) = Inl e \<or>
              (\<exists>f. fst (open_w outDoc w) = Inr f \<and>
                 fst (print_file L transformed_doc f w) = Inl e)))))))))"
    unfolding xsl_transform_unfold
    by (auto simp: ET_parse_def ET_XSLT_def call_transform_def open_w_def print_file_def
        split: option.splits sum.splits if_splits)
next
  assume "fst (xsl_transform L
           (DOXYGEN_OUTPUT_DIRECTORY cfg @ ''/xml/index.xml'')
           (PROJECT_DOC_DIR cfg @ ''/thirdparty/doxygen/dedup_index.xsl'')
           (DOXYGEN_OUTPUT_DIRECTORY cfg @ ''/xml/index.xml'') w) = Inl e"
  then show "doxy_deduplicate_index L cfg w =
      (Inl e, snd (xsl_transform L
           (DOXYGEN_OUTPUT_DIRECTORY cfg @ ''/xml/index.xml'')
           (PROJECT_DOC_DIR cfg @ ''/thirdparty/doxygen/dedup_index.xsl'')
           (DOXYGEN_OUTPUT_DIRECTORY cfg @ ''/xml/index.xml'') w))"
    by (auto simp: doxy_deduplicate_index_unfold split: prod.splits sum.splits)
next
  show "dedup_index_py L cfg w = doxy_deduplicate_index L cfg w"
    by (simp add: dedup_index_py_def)
qed

theorem errors_propagate_witness:
  "fst (xsl_transform mini_etree ''/b/xml/index.xml'' ''/d/thirdparty/doxygen/dedup_index.xsl''
          ''/b/xml/index.xml'' bad_demo_world) = Inl (XMLSyntaxError ''<index>'') \<and>
   fst (ET_parse mini_etree ''/b/xml/index.xml'' bad_demo_world) = Inl (XMLSyntaxError ''<index>'') \<and>
   fst (doxy_deduplicate_index mini_etree demo_cfg bad_demo_world) = Inl (XMLSyntaxError ''<index>'') \<and>
   stdout (snd (doxy_deduplicate_index mini_etree demo_cfg bad_demo_world)) = []"
proof -
  let ?e = "XMLSyntaxError ''<index>''"
  have p: "fst (ET_parse mini_etree ''/b/xml/index.xml'' bad_demo_world) = Inl ?e"
    by code_simp
  have c: "DOXYGEN_OUTPUT_DIRECTORY demo_cfg @ ''/xml/index.xml'' = ''/b/xml/index.xml''"
    "PROJECT_DOC_DIR demo_cfg @ ''/thirdparty/doxygen/dedup_index.xsl''
       = ''/d/thirdparty/doxygen/dedup_index.xsl''"
    by (simp_all add: demo_cfg_def)
  note t = errors_propagate [of mini_etree "''/b/xml/index.xml''"
      "''/d/thirdparty/doxygen/dedup_index.xsl''" "''/b/xml/index.xml''" bad_demo_world ?e demo_cfg]
  from t p have x: "fst (xsl_transform mini_etree ''/b/xml/index.xml''
      ''/d/thirdparty/doxygen/dedup_index.xsl'' ''/b/xml/index.xml'' bad_demo_world) = Inl ?e"
    by blast
  with t c have d: "doxy_deduplicate_index mini_etree demo_cfg bad_demo_world =
      (Inl ?e, snd (xsl_transform mini_etree ''/b/xml/index.xml''
      ''/d/thirdparty/doxygen/dedup_index.xsl'' ''/b/xml/index.xml'' bad_demo_world))"
    by simp
  have "stdout (snd (xsl_transform mini_etree ''/b/xml/index.xml''
      ''/d/thirdparty/doxygen/dedup_index.xsl'' ''/b/xml/index.xml'' bad_demo_world)) = []"
    by code_simp
  with x p d show ?thesis by simp
qed

subsection \<open>C5: one pass through a fixed sequence\<close>



subsection \<open>C9: the trailing newline\<close>

text \<open>
  Claim C9: after a successful call the file at the output path holds the string form of
  the transform's result followed by exactly one newline added by \<^verbatim>\<open>print\<close>: its last
  character is a newline and what precedes it is that string form, whether or not the
  latter ends in a newline itself.
\<close>

theorem written_text_ends_in_newline:
  assumes "xsl_transform L inDoc xslFile outDoc w = (Inr u, w')"
  shows "\<exists>a doc b xslt transform transformed_doc text.
           files w inDoc = Some a \<and> fromstring L a = Inr doc \<and>
           files w xslFile = Some b \<and> fromstring L b = Inr xslt \<and>
           XSLT L xslt = Inr transform \<and> apply_to L transform doc = Inr transformed_doc \<and>
           str_of L transformed_doc = Inr text \<and>
           files w' outDoc = Some (text @ [newline]) \<and>
           last (text @ [newline]) = newline \<and> butlast (text @ [newline]) = text"
proof -
  from assms have "fst (xsl_transform L inDoc xslFile outDoc w) = Inr u"
    and "snd (xsl_transform L inDoc xslFile outDoc w) = w'" by simp_all
  with xsl_transform_InrD [of L inDoc xslFile outDoc w u] show ?thesis
    by fastforce
qed

theorem written_text_ends_in_newline_witness:
  "xsl_transform mini_etree ''in.xml'' ''dedup.xsl'' ''out.xml'' used_world =
     (Inr (), snd (xsl_transform mini_etree ''in.xml'' ''dedup.xsl'' ''out.xml'' used_world)) \<and>
   files (snd (xsl_transform mini_etree ''in.xml'' ''dedup.xsl'' ''out.xml'' used_world)) ''out.xml''
     = Some (index_AB @ [newline])"
proof -
  let ?r = "xsl_transform mini_etree ''in.xml'' ''dedup.xsl'' ''out.xml'' used_world"
  have "fst ?r = Inr ()" by code_simp
  then have h: "?r = (Inr (), snd ?r)" by (simp add: prod_eq_iff)
  from written_text_ends_in_newline [OF h] obtain a doc b xslt transform tdoc content where
    c: "files used_world ''in.xml'' = Some a" "fromstring mini_etree a = Inr doc"
       "files used_world ''dedup.xsl'' = Some b" "fromstring mini_etree b = Inr xslt"
       "XSLT mini_etree xslt = Inr transform" "apply_to mini_etree transform doc = Inr tdoc"
       "str_of mini_etree tdoc = Inr content"
       "files (snd ?r) ''out.xml'' = Some (content @ [newline])"
    by blast
  have k: "files used_world ''in.xml'' = Some index_AAB"
    "fromstring mini_etree index_AAB = Inr doc_AAB"
    "files used_world ''dedup.xsl'' = Some keep_first_refid"
    "fromstring mini_etree keep_first_refid = Inr sheet_doc"
    "XSLT mini_etree sheet_doc = Inr (KeepFirst ''compound'' ''refid'')"
    "apply_to mini_etree (KeepFirst ''compound'' ''refid'') doc_AAB = Inr doc_AB"
    "str_of mini_etree doc_AB = Inr index_AB"
    by code_simp+
  from c k have "content = index_AB" by simp
  with c(8) h show ?thesis by simp
qed

subsection \<open>C7: the driver\<close>

text \<open>
  Claim C7: the driver takes no argument of its own (the library, the build configuration
  and the world are its environment). Its outcome and its effect on the files are those
  of \<open>xsl_transform\<close> called with the three path strings that the build substitution
  yields. When that call succeeds it appends the fixed line
  \<^verbatim>\<open>Removed duplicated <compound> elements in index.xml\<close> to standard output;
  otherwise standard output is as it was. Running the script is calling the driver.
\<close>

theorem driver_fixed_paths_and_notice:
  "fst (doxy_deduplicate_index L cfg w) =
     fst (xsl_transform L
           (DOXYGEN_OUTPUT_DIRECTORY cfg @ ''/xml/index.xml'')
           (PROJECT_DOC_DIR cfg @ ''/thirdparty/doxygen/dedup_index.xsl'')
           (DOXYGEN_OUTPUT_DIRECTORY cfg @ ''/xml/index.xml'') w) \<and>
   files (snd (doxy_deduplicate_index L cfg w)) =
     files (snd (xsl_transform L
           (DOXYGEN_OUTPUT_DIRECTORY cfg @ ''/xml/index.xml'')
           (PROJECT_DOC_DIR cfg @ ''/thirdparty/doxygen/dedup_index.xsl'')
           (DOXYGEN_OUTPUT_DIRECTORY cfg @ ''/xml/index.xml'') w)) \<and>
   (fst (doxy_deduplicate_index L cfg w) = Inr () \<longrightarrow>
      stdout (snd (doxy_deduplicate_index L cfg w)) =
        stdout w @ ''Removed duplicated <compound> elements in index.xml'' @ [newline]) \<and>
   (fst (doxy_deduplicate_index L cfg w) \<noteq> Inr () \<longrightarrow>
      stdout (snd (doxy_deduplicate_index L cfg w)) = stdout w) \<and>
   dedup_index_py L cfg w = doxy_deduplicate_index L cfg w"
  unfolding doxy_deduplicate_index_unfold xsl_transform_unfold dedup_index_py_def
  by (auto split: option.splits sum.splits)

theorem driver_fixed_paths_and_notice_witness:
  "fst (doxy_deduplicate_index mini_etree demo_cfg demo_world) = Inr () \<and>
   stdout (snd (doxy_deduplicate_index mini_etree demo_cfg demo_world)) =
     ''Removed duplicated <compound> elements in index.xml'' @ [newline] \<and>
   fst (doxy_deduplicate_index mini_etree demo_cfg bad_demo_world) \<noteq> Inr () \<and>
   stdout (snd (doxy_deduplicate_index mini_etree demo_cfg bad_demo_world)) = []"
proof -
  have ok: "fst (doxy_deduplicate_index mini_etree demo_cfg demo_world) = Inr ()"
    by code_simp
  have bad: "fst (doxy_deduplicate_index mini_etree demo_cfg bad_demo_world) \<noteq> Inr ()"
    by code_simp
  have s0: "stdout demo_world = []" "stdout bad_demo_world = []"
    by code_simp+
  from driver_fixed_paths_and_notice [of mini_etree demo_cfg demo_world] ok s0
  have a: "stdout (snd (doxy_deduplicate_index mini_etree demo_cfg demo_world)) =
     ''Removed duplicated <compound> elements in index.xml'' @ [newline]"
    by simp
  from driver_fixed_paths_and_notice [of mini_etree demo_cfg bad_demo_world] bad s0
  have b: "stdout (snd (doxy_deduplicate_index mini_etree demo_cfg bad_demo_world)) = []"
    by simp
  from ok bad a b show ?thesis by simp
qed

subsection \<open>C8: the input file is the output file\<close>

text \<open>
  Claim C8: the driver passes one and the same path as input and as output. The first
  call of every run parses the index file, and any file the run opens for writing or
  prints to is that index file. A successful run replaces its content by the printed
  transform of what it held before. In every run all other paths are as before: no copy
  of the old content is kept anywhere.
\<close>

theorem driver_overwrites_its_input:
  "(\<exists>evs. calls (snd (doxy_deduplicate_index L cfg w)) =
            calls w @ Parse (DOXYGEN_OUTPUT_DIRECTORY cfg @ ''/xml/index.xml'') # evs \<and>
          (\<forall>p. OpenW p \<in> set evs \<or> PrintTo p \<in> set evs \<longrightarrow>
                p = DOXYGEN_OUTPUT_DIRECTORY cfg @ ''/xml/index.xml'')) \<and>
   (fst (doxy_deduplicate_index L cfg w) = Inr () \<longrightarrow>
      (\<exists>old doc b xslt transform transformed_doc content.
         files w (DOXYGEN_OUTPUT_DIRECTORY cfg @ ''/xml/index.xml'') = Some old \<and>
         fromstring L old = Inr doc \<and>
         files w (PROJECT_DOC_DIR cfg @ ''/thirdparty/doxygen/dedup_index.xsl'') = Some b \<and>
         fromstring L b = Inr xslt \<and> XSLT L xslt = Inr transform \<and>
         apply_to L transform doc = Inr transformed_doc \<and>
         str_of L transformed_doc = Inr content \<and>
         files (snd (doxy_deduplicate_index L cfg w))
           (DOXYGEN_OUTPUT_DIRECTORY cfg @ ''/xml/index.xml'') = Some (content @ [newline]))) \<and>
   (\<forall>p. p \<noteq> DOXYGEN_OUTPUT_DIRECTORY cfg @ ''/xml/index.xml'' \<longrightarrow>
        files (snd (doxy_deduplicate_index L cfg w)) p = files w p)"
  unfolding doxy_deduplicate_index_unfold xsl_transform_unfold
  by (auto split: option.splits sum.splits)

theorem driver_overwrites_its_input_witness:
  "fst (doxy_deduplicate_index mini_etree demo_cfg demo_world) = Inr () \<and>
   files demo_world ''/b/xml/index.xml'' = Some index_AAB \<and>
   files (snd (doxy_deduplicate_index mini_etree demo_cfg demo_world)) ''/b/xml/index.xml''
     = Some (index_AB @ [newline]) \<and>
   files (snd (doxy_deduplicate_index mini_etree demo_cfg demo_world)) ''/b/xml/index.xml.bak''
     = None"
proof -
  have ok: "fst (doxy_deduplicate_index mini_etree demo_cfg demo_world) = Inr ()"
    by code_simp
  have c: "DOXYGEN_OUTPUT_DIRECTORY demo_cfg @ ''/xml/index.xml'' = ''/b/xml/index.xml''"
    "PROJECT_DOC_DIR demo_cfg @ ''/thirdparty/doxygen/dedup_index.xsl''
       = ''/d/thirdparty/doxygen/dedup_index.xsl''"
    by (simp_all add: demo_cfg_def)
  have k: "files demo_world ''/b/xml/index.xml'' = Some index_AAB"
    "fromstring mini_etree index_AAB = Inr doc_AAB"
    "files demo_world ''/d/thirdparty/doxygen/dedup_index.xsl'' = Some keep_first_refid"
    "fromstring mini_etree keep_first_refid = Inr sheet_doc"
    "XSLT mini_etree sheet_doc = Inr (KeepFirst ''compound'' ''refid'')"
    "apply_to mini_etree (KeepFirst ''compound'' ''refid'') doc_AAB = Inr doc_AB"
    "str_of mini_etree doc_AB = Inr index_AB"
    "files demo_world ''/b/xml/index.xml.bak'' = None"
    by code_simp+
  note t = driver_overwrites_its_input [of mini_etree demo_cfg demo_world, unfolded c]
  note t2 = t [THEN conjunct2, THEN conjunct1, rule_format, OF ok]
  note t3 = t [THEN conjunct2, THEN conjunct2, rule_format]
  from t2 obtain old doc b xslt transform tdoc content where
    h: "files demo_world ''/b/xml/index.xml'' = Some old" "fromstring mini_etree old = Inr doc"
       "files demo_world ''/d/thirdparty/doxygen/dedup_index.xsl'' = Some b"
       "fromstring mini_etree b = Inr xslt" "XSLT mini_etree xslt = Inr transform"
       "apply_to mini_etree transform doc = Inr tdoc" "str_of mini_etree tdoc = Inr content"
       "files (snd (doxy_deduplicate_index mini_etree demo_cfg demo_world)) ''/b/xml/index.xml''
          = Some (content @ [newline])"
    by blast
  from h k have "content = index_AB" by simp
  with h(8) have a: "files (snd (doxy_deduplicate_index mini_etree demo_cfg demo_world))
      ''/b/xml/index.xml'' = Some (index_AB @ [newline])"
    by simp
  have "''/b/xml/index.xml.bak'' \<noteq> ''/b/xml/index.xml''"
    by simp
  from t3 [OF this] k(8) have b: "files (snd (doxy_deduplicate_index mini_etree demo_cfg demo_world))
      ''/b/xml/index.xml.bak'' = None"
    by simp
  from ok k(1) a b show ?thesis by simp
qed

subsection \<open>C10: the output is a function of the two file contents\<close>



subsection \<open>C3: each key once\<close>

text \<open>
  Claim C3, for the stylesheet as the specification describes it: when the input parses
  to \<open>doc\<close> and the compiled stylesheet maps it to \<open>dedup_index_xsl doc\<close>, the call
  returns and the output file holds the string form of that document followed by a
  newline. The \<^verbatim>\<open>refid\<close> values of its \<^verbatim>\<open><compound>\<close> elements are those of the
  input, each of them exactly once. In particular the index with compounds A, A, B
  becomes the index with compounds A, B.
\<close>

theorem dedup_output_keys:
  fixes L :: "(xml, 't, xml) etree"
  assumes "files w inDoc = Some a" and "fromstring L a = Inr doc"
    and "files w xslFile = Some b" and "fromstring L b = Inr xslt"
    and "XSLT L xslt = Inr transform"
    and "apply_to L transform doc = Inr (dedup_index_xsl doc)"
    and "str_of L (dedup_index_xsl doc) = Inr content"
    and "writable w outDoc"
  shows "fst (xsl_transform L inDoc xslFile outDoc w) = Inr () \<and>
         files (snd (xsl_transform L inDoc xslFile outDoc w)) outDoc = Some (content @ [newline]) \<and>
         set (refids (dedup_index_xsl doc)) = set (refids doc) \<and>
         (\<forall>k \<in> set (refids doc). count_list (refids (dedup_index_xsl doc)) k = 1) \<and>
         (doc = doc_AAB \<longrightarrow> dedup_index_xsl doc = doc_AB)"
proof -
  have run: "xsl_transform L inDoc xslFile outDoc w =
      (Inr (),
       w\<lparr>files := (files w)(outDoc \<mapsto> content @ [newline]),
         calls := calls w @ [Parse inDoc, Parse xslFile, Compile, Execute, OpenW outDoc, PrintTo outDoc]\<rparr>)"
    using assms by (rule xsl_transform_returns)
  have once: "\<forall>k \<in> set (refids doc). count_list (refids (dedup_index_xsl doc)) k = 1"
    using refids_dedup_distinct [of doc] refids_dedup_set [of doc]
    by (simp add: count_list_distinct)
  have ex: "dedup_index_xsl doc_AAB = doc_AB"
    by (simp add: dedup_index_xsl_def doc_AAB_def doc_AB_def compound_def key_of_def)
  from run once ex show ?thesis
    by (simp add: refids_dedup_set)
qed

text \<open>
  The scenario of the specification, run on its literal texts with \<open>mini_etree\<close>.
\<close>

theorem dedup_output_keys_witness:
  "fst (xsl_transform mini_etree ''in.xml'' ''dedup.xsl'' ''out.xml'' small_world) = Inr () \<and>
   files small_world ''in.xml'' =
     Some ''<index><compound refid=\"A\"/><compound refid=\"A\"/><compound refid=\"B\"/></index>'' \<and>
   files (snd (xsl_transform mini_etree ''in.xml'' ''dedup.xsl'' ''out.xml'' small_world)) ''out.xml'' =
     Some (''<index><compound refid=\"A\"/><compound refid=\"B\"/></index>'' @ [newline]) \<and>
   refids doc_AAB = [''A'', ''A'', ''B''] \<and>
   count_list (refids (dedup_index_xsl doc_AAB)) ''A'' = 1 \<and>
   count_list (refids (dedup_index_xsl doc_AAB)) ''B'' = 1 \<and>
   dedup_index_xsl doc_AAB = doc_AB"
proof -
  have h: "files small_world ''in.xml'' = Some index_AAB"
    "fromstring mini_etree index_AAB = Inr doc_AAB"
    "files small_world ''dedup.xsl'' = Some keep_first_refid"
    "fromstring mini_etree keep_first_refid = Inr sheet_doc"
    "XSLT mini_etree sheet_doc = Inr (KeepFirst ''compound'' ''refid'')"
    by code_simp+
  have h6: "apply_to mini_etree (KeepFirst ''compound'' ''refid'') doc_AAB
      = Inr (dedup_index_xsl doc_AAB)"
    by (simp add: mini_etree_def dedup_index_xsl_def)
  have d: "dedup_index_xsl doc_AAB = doc_AB"
    by code_simp
  have h7: "str_of mini_etree (dedup_index_xsl doc_AAB) = Inr index_AB"
    unfolding d by code_simp
  have h8: "writable small_world ''out.xml''"
    by code_simp
  have r: "refids doc_AAB = [''A'', ''A'', ''B'']"
    by code_simp
  note t = dedup_output_keys [OF h(1) h(2) h(3) h(4) h(5) h6 h7 h8]
  from t have t1: "fst (xsl_transform mini_etree ''in.xml'' ''dedup.xsl'' ''out.xml'' small_world) = Inr ()"
    and t2: "files (snd (xsl_transform mini_etree ''in.xml'' ''dedup.xsl'' ''out.xml'' small_world))
               ''out.xml'' = Some (index_AB @ [newline])"
    and t3: "\<forall>k \<in> set (refids doc_AAB). count_list (refids (dedup_index_xsl doc_AAB)) k = 1"
    and t4: "dedup_index_xsl doc_AAB = doc_AB"
    by blast+
  from r have "''A'' \<in> set (refids doc_AAB)" and "''B'' \<in> set (refids doc_AAB)"
    by simp_all
  with t3 have c: "count_list (refids (dedup_index_xsl doc_AAB)) ''A'' = 1"
    "count_list (refids (dedup_index_xsl doc_AAB)) ''B'' = 1"
    by blast+
  have i: "index_AAB =
      ''<index><compound refid=\"A\"/><compound refid=\"A\"/><compound refid=\"B\"/></index>''"
    "index_AB = ''<index><compound refid=\"A\"/><compound refid=\"B\"/></index>''"
    by (simp_all add: index_AAB_def index_AB_def)
  from t1 t2 t4 c r h(1) show ?thesis
    unfolding i by simp
qed

subsection \<open>C6: a second application changes nothing\<close>

text \<open>
  Claim C6, for the stylesheet as the specification describes it and a library that
  reads back the document it has printed: a first call writes the de-duplicated index to
  the output path; a second call with that file as input and the same stylesheet returns
  as well and writes the same bytes.
\<close>

theorem dedup_twice_same_bytes:
  fixes L :: "(xml, 't, xml) etree"
  assumes "files w inDoc = Some a" and "fromstring L a = Inr doc"
    and "files w xslFile = Some b" and "fromstring L b = Inr xslt"
    and "XSLT L xslt = Inr transform"
    and "\<forall>d. apply_to L transform d = Inr (dedup_index_xsl d)"
    and "str_of L (dedup_index_xsl doc) = Inr content"
    and "fromstring L (content @ [newline]) = Inr (dedup_index_xsl doc)"
    and "writable w outDoc" and "writable w outDoc2" and "xslFile \<noteq> outDoc"
  shows "\<exists>w1 w2. xsl_transform L inDoc xslFile outDoc w = (Inr (), w1) \<and>
           xsl_transform L outDoc xslFile outDoc2 w1 = (Inr (), w2) \<and>
           files w1 outDoc = Some (content @ [newline]) \<and>
           files w2 outDoc2 = Some (content @ [newline])"
proof -
  let ?w1 = "w\<lparr>files := (files w)(outDoc \<mapsto> content @ [newline]),
         calls := calls w @ [Parse inDoc, Parse xslFile, Compile, Execute, OpenW outDoc, PrintTo outDoc]\<rparr>"
  let ?w2 = "?w1\<lparr>files := (files ?w1)(outDoc2 \<mapsto> content @ [newline]),
         calls := calls ?w1 @ [Parse outDoc, Parse xslFile, Compile, Execute, OpenW outDoc2, PrintTo outDoc2]\<rparr>"
  from assms(6) have ap: "apply_to L transform doc = Inr (dedup_index_xsl doc)"
    by simp
  have first: "xsl_transform L inDoc xslFile outDoc w = (Inr (), ?w1)"
    using assms(1-5) ap assms(7) assms(9) by (rule xsl_transform_returns)
  have f1: "files ?w1 outDoc = Some (content @ [newline])"
    by simp
  have f2: "files ?w1 xslFile = Some b"
    using assms(3) assms(11) by simp
  from assms(6) have ap2:
    "apply_to L transform (dedup_index_xsl doc) = Inr (dedup_index_xsl doc)"
    by (simp add: dedup_index_xsl_idem)
  have wr: "writable ?w1 outDoc2"
    using assms(10) by simp
  have second: "xsl_transform L outDoc xslFile outDoc2 ?w1 = (Inr (), ?w2)"
    using f1 assms(8) f2 assms(4) assms(5) ap2 assms(7) wr by (rule xsl_transform_returns)
  have "files ?w2 outDoc2 = Some (content @ [newline])"
    by simp
  with first second f1 show ?thesis
    by blast
qed

theorem dedup_twice_same_bytes_witness:
  "fst (xsl_transform mini_etree ''in.xml'' ''dedup.xsl'' ''out.xml'' small_world) = Inr () \<and>
   fst (xsl_transform mini_etree ''out.xml'' ''dedup.xsl'' ''out.xml''
          (snd (xsl_transform mini_etree ''in.xml'' ''dedup.xsl'' ''out.xml'' small_world))) = Inr () \<and>
   files (snd (xsl_transform mini_etree ''out.xml'' ''dedup.xsl'' ''out.xml''
          (snd (xsl_transform mini_etree ''in.xml'' ''dedup.xsl'' ''out.xml'' small_world)))) ''out.xml''
     = files (snd (xsl_transform mini_etree ''in.xml'' ''dedup.xsl'' ''out.xml'' small_world)) ''out.xml''"
proof -
  have h: "files small_world ''in.xml'' = Some index_AAB"
    "fromstring mini_etree index_AAB = Inr doc_AAB"
    "files small_world ''dedup.xsl'' = Some keep_first_refid"
    "fromstring mini_etree keep_first_refid = Inr sheet_doc"
    "XSLT mini_etree sheet_doc = Inr (KeepFirst ''compound'' ''refid'')"
    by code_simp+
  have h6: "\<forall>d. apply_to mini_etree (KeepFirst ''compound'' ''refid'') d = Inr (dedup_index_xsl d)"
    by (simp add: mini_etree_def dedup_index_xsl_def)
  have d: "dedup_index_xsl doc_AAB = doc_AB"
    by code_simp
  have h7: "str_of mini_etree (dedup_index_xsl doc_AAB) = Inr index_AB"
    unfolding d by code_simp
  have h8: "fromstring mini_etree (index_AB @ [newline]) = Inr (dedup_index_xsl doc_AAB)"
    unfolding d by code_simp
  have h9: "writable small_world ''out.xml''"
    by code_simp
  have h10: "''dedup.xsl'' \<noteq> ''out.xml''"
    by simp
  from dedup_twice_same_bytes [OF h(1) h(2) h(3) h(4) h(5) h6 h7 h8 h9 h9 h10]
  obtain w1 w2 where
    r1: "xsl_transform mini_etree ''in.xml'' ''dedup.xsl'' ''out.xml'' small_world = (Inr (), w1)"
    and r2: "xsl_transform mini_etree ''out.xml'' ''dedup.xsl'' ''out.xml'' w1 = (Inr (), w2)"
    and f1: "files w1 ''out.xml'' = Some (index_AB @ [newline])"
    and f2: "files w2 ''out.xml'' = Some (index_AB @ [newline])"
    by blast
  from r1 have s1: "snd (xsl_transform mini_etree ''in.xml'' ''dedup.xsl'' ''out.xml'' small_world) = w1"
    and o1: "fst (xsl_transform mini_etree ''in.xml'' ''dedup.xsl'' ''out.xml'' small_world) = Inr ()"
    by simp_all
  from r2 have s2: "snd (xsl_transform mini_etree ''out.xml'' ''dedup.xsl'' ''out.xml'' w1) = w2"
    and o2: "fst (xsl_transform mini_etree ''out.xml'' ''dedup.xsl'' ''out.xml'' w1) = Inr ()"
    by simp_all
  from o1 o2 f1 f2 show ?thesis
    unfolding s1 s2 by simp
qed

end
